theory Spec2Isabelle
  imports Complex_Main "HOL-Library.Sublist"
begin

section \<open>Strings\<close>

text \<open>
  A Python \<open>str\<close> is a sequence of Unicode code points and \<open>len\<close> counts code points, so
  a string is modelled as the list of its code points. The fixed Russian texts of the source are
  written out as code points; \<open>ascii\<close> embeds a pure ASCII literal.
\<close>

type_synonym ustring = "nat list"

definition ascii :: "string \<Rightarrow> ustring" where
  "ascii s = map of_char s"

text \<open>
  \<open>str.isspace\<close> on one code point, which is also what \<open>\s\<close> matches in a \<open>str\<close> pattern and
  what \<open>str.strip()\<close> removes: TAB..CR, FS..US, SPACE, NEL, NBSP and the Unicode space separators.
\<close>

definition py_isspace :: "nat \<Rightarrow> bool" where
  "py_isspace c \<longleftrightarrow>
     (9 \<le> c \<and> c \<le> 13) \<or> (28 \<le> c \<and> c \<le> 32) \<or> c = 133 \<or> c = 160 \<or> c = 5760 \<or>
     (8192 \<le> c \<and> c \<le> 8202) \<or> c = 8232 \<or> c = 8233 \<or> c = 8239 \<or> c = 8287 \<or> c = 12288"

text \<open>\<open>str.strip()\<close>: whitespace is dropped at both ends.\<close>

definition strip :: "ustring \<Rightarrow> ustring" where
  "strip s = rev (dropWhile py_isspace (rev (dropWhile py_isspace s)))"

text \<open>\<open>str(n)\<close> for a non-negative integer: its decimal digits.\<close>

function show_nat :: "nat \<Rightarrow> ustring" where
  "show_nat n = (if n < 10 then [48 + n] else show_nat (n div 10) @ [48 + n mod 10])"
  by pat_completeness auto
termination
  by (relation "measure id") auto

declare show_nat.simps [simp del]

section \<open>document_processor.py\<close>

subsection \<open>clean_text\<close>

text \<open>
  \<open>re.sub(r'\s+', ' ', text)\<close>: every maximal run of whitespace becomes one SPACE (code point 32).
\<close>

function sub_whitespace :: "ustring \<Rightarrow> ustring" where
  "sub_whitespace [] = []"
| "sub_whitespace (c # cs) =
     (if py_isspace c then 32 # sub_whitespace (dropWhile py_isspace cs)
      else c # sub_whitespace cs)"
  by pat_completeness auto
termination
  by (relation "measure length") (auto simp: length_dropWhile_le less_Suc_eq_le)

text \<open>The character class \<open>[\x00-\x08\x0b\x0c\x0e-\x1f]\<close> of the second substitution.\<close>

definition is_control :: "nat \<Rightarrow> bool" where
  "is_control c \<longleftrightarrow> c \<le> 8 \<or> c = 11 \<or> c = 12 \<or> (14 \<le> c \<and> c \<le> 31)"

definition sub_control :: "ustring \<Rightarrow> ustring" where
  "sub_control s = filter (\<lambda>c. \<not> is_control c) s"

definition clean_text :: "ustring \<Rightarrow> ustring" where
  "clean_text text = strip (sub_control (sub_whitespace text))"

subsection \<open>extract_text_from_pdf\<close>

text \<open>The label \<open>[Stranitsa\<close> followed by a space, which opens the header of each page.\<close>

definition PAGE_LABEL :: ustring where
  "PAGE_LABEL =
    [91, 1057, 1090, 1088, 1072, 1085, 1080, 1094, 1072, 32]"

text \<open>
  The PDF library is outside the repository: what it extracts is an input, the list of the page
  texts, or \<open>None\<close> when the library raises. Each page is appended as
  \<open>"\n[Stranitsa {page_num + 1}]\n{page_text}"\<close>; any exception gives the empty string.
\<close>

definition extract_text_from_pdf :: "ustring list option \<Rightarrow> ustring" where
  "extract_text_from_pdf pdf =
     (case pdf of
        None \<Rightarrow> []
      | Some pages \<Rightarrow>
          clean_text (concat (map (\<lambda>(page_num, page_text).
            [10] @ PAGE_LABEL @ show_nat (page_num + 1) @ [93, 10] @ page_text)
            (enumerate 0 pages))))"

subsection \<open>process_document\<close>

record metadata =
  source :: ustring
  filename :: ustring
  chunk_id :: nat
  total_chunks :: nat

record document =
  content :: ustring
  metadata :: metadata

text \<open>
  A path as \<open>pathlib\<close> presents it: \<open>str(file_path)\<close>, \<open>file_path.name\<close> and
  \<open>file_path.suffix.lower()\<close>.
\<close>

record file_path =
  path_str :: ustring
  path_name :: ustring
  path_suffix_lower :: ustring

text \<open>
  A file on disk, seen through the two ways the source reads it: the page texts the PDF library
  extracts (\<open>None\<close>: the library raises) and the result of reading it as UTF-8 text
  (\<open>None\<close>: the read raises).
\<close>

record disk_file =
  pdf_pages :: "ustring list option"
  utf8_text :: "ustring option"

datatype py_error =
    FileNotFoundError
  | UnicodeDecodeError
  | ValueError
  | TypeError
  | DuplicateIDError

text \<open>
  The text splitter (langchain's \<open>RecursiveCharacterTextSplitter.split_text\<close>) is outside the
  repository and is a parameter. \<open>enumerate(chunks)\<close> numbers the chunks from 0 and
  \<open>len(chunks)\<close> is stored in each of them.
\<close>

definition process_document ::
    "(ustring \<Rightarrow> ustring list) \<Rightarrow> (ustring \<rightharpoonup> disk_file) \<Rightarrow> file_path \<Rightarrow>
     py_error + document list" where
  "process_document split_text fs p =
     (case fs (path_str p) of
        None \<Rightarrow> Inl FileNotFoundError
      | Some f \<Rightarrow>
          (case (if path_suffix_lower p = ascii ''.pdf''
                 then Inr (extract_text_from_pdf (pdf_pages f))
                 else (case utf8_text f of
                         None \<Rightarrow> Inl UnicodeDecodeError
                       | Some t \<Rightarrow> Inr t)) of
             Inl e \<Rightarrow> Inl e
           | Inr text \<Rightarrow>
               if strip text = [] then Inr []
               else
                 let chunks = split_text text
                 in Inr (map (\<lambda>(i, chunk).
                      \<lparr>content = chunk,
                       metadata = \<lparr>source = path_str p, filename = path_name p,
                                   chunk_id = i, total_chunks = length chunks\<rparr>\<rparr>)
                      (enumerate 0 chunks))))"

section \<open>config.py\<close>

definition LMSTUDIO_MODEL :: ustring where
  "LMSTUDIO_MODEL = ascii ''qwen2.5-coder-14b-instruct''"

definition MAX_RETRIEVED_DOCS :: int where
  "MAX_RETRIEVED_DOCS = 5"

definition MAX_CONTEXT_LENGTH :: nat where
  "MAX_CONTEXT_LENGTH = 4000"

section \<open>vector_database.py\<close>

subsection \<open>The collection\<close>

text \<open>
  The vector store (a ChromaDB collection) and the sentence-embedding model are libraries outside
  the repository. The embedding model is a parameter \<open>enc\<close> into an embedding space \<open>'v\<close>, and the
  distance of the collection a parameter \<open>metric\<close>. The collection is the list of its records in
  insertion order; \<open>add\<close> and \<open>query\<close>, the two operations of the library on the paths studied
  here, are modelled by what the library documents for them.
\<close>

record 'v entry =
  entry_id :: ustring
  entry_embedding :: 'v
  entry_document :: ustring
  entry_metadata :: metadata

type_synonym 'v collection = "'v entry list"

text \<open>
  \<open>collection.add(embeddings, documents, metadatas, ids)\<close>: an empty batch and a batch that
  repeats an id are rejected; a record whose id is already in the collection is ignored, without
  an exception (replacing is the library's separate \<open>upsert\<close>, which the source never calls).
  The library's limit on the size of a batch is not modelled.
\<close>

definition collection_add :: "'v collection \<Rightarrow> 'v entry list \<Rightarrow> py_error + 'v collection" where
  "collection_add coll batch =
     (if batch = [] then Inl ValueError
      else if \<not> distinct (map entry_id batch) then Inl DuplicateIDError
      else Inr (coll @ filter (\<lambda>e. entry_id e \<notin> set (map entry_id coll)) batch))"

record query_result =
  documents :: "ustring list"
  metadatas :: "metadata list"
  distances :: "real list"

text \<open>
  \<open>collection.query(query_embeddings=[q], n_results=n, include=[...])\<close>, the lists for the one
  query embedding: \<open>n \<le> 0\<close> is rejected; otherwise the \<open>n\<close> records nearest to \<open>q\<close> (all of
  them when the collection holds fewer), by ascending distance. The library's search is
  approximate; the model returns the exact nearest records.
\<close>

definition collection_query ::
    "('v \<Rightarrow> 'v \<Rightarrow> real) \<Rightarrow> 'v collection \<Rightarrow> 'v \<Rightarrow> int \<Rightarrow> py_error + query_result" where
  "collection_query metric coll q n =
     (if n \<le> 0 then Inl TypeError
      else
        let hits = take (nat n) (sort_key (\<lambda>e. metric q (entry_embedding e)) coll)
        in Inr \<lparr>documents = map entry_document hits,
                metadatas = map entry_metadata hits,
                distances = map (\<lambda>e. metric q (entry_embedding e)) hits\<rparr>)"

subsection \<open>add_documents\<close>

text \<open>The id \<open>f"{metadata['filename']}_{metadata['chunk_id']}"\<close>.\<close>

definition make_id :: "metadata \<Rightarrow> ustring" where
  "make_id m = filename m @ [95] @ show_nat (chunk_id m)"

definition make_entry :: "(ustring \<Rightarrow> 'v) \<Rightarrow> document \<Rightarrow> 'v entry" where
  "make_entry enc doc =
     \<lparr>entry_id = make_id (metadata doc), entry_embedding = enc (content doc),
      entry_document = content doc, entry_metadata = metadata doc\<rparr>"

text \<open>
  The collection is state: the function returns the new collection, or the exception the
  library raises, in which case the collection is left as it was.
\<close>

definition add_documents ::
    "(ustring \<Rightarrow> 'v) \<Rightarrow> 'v collection \<Rightarrow> document list \<Rightarrow> py_error + 'v collection" where
  "add_documents enc coll docs =
     (if docs = [] then Inr coll
      else collection_add coll (map (make_entry enc) docs))"

text \<open>
  The identity key of a record, \<open>(filename, chunk_id)\<close>, and the collections the source builds:
  every record carries the id made from its own metadata, and no id occurs twice. The empty
  collection is one, and \<open>add_documents\<close> keeps the property.
\<close>

definition entry_key :: "'v entry \<Rightarrow> ustring \<times> nat" where
  "entry_key e = (filename (entry_metadata e), chunk_id (entry_metadata e))"

definition index_invariant :: "'v collection \<Rightarrow> bool" where
  "index_invariant coll \<longleftrightarrow>
     distinct (map entry_id coll) \<and> list_all (\<lambda>e. entry_id e = make_id (entry_metadata e)) coll"

subsection \<open>search\<close>

record search_result = document +
  similarity_score :: real
  rank :: nat

text \<open>
  The functions on the path of a question return, next to their result, the calls they make to
  the outside (embedding model, collection, completion backend), in the order they make them.
\<close>

record payload =
  payload_model :: ustring
  payload_messages :: "(ustring \<times> ustring) list"
  payload_temperature :: real
  payload_max_tokens :: nat
  payload_stream :: bool

datatype io_call =
    Encode ustring
  | CollectionQuery int
  | HttpGet ustring
  | HttpPost ustring payload

definition search ::
    "(ustring \<Rightarrow> 'v) \<Rightarrow> ('v \<Rightarrow> 'v \<Rightarrow> real) \<Rightarrow> 'v collection \<Rightarrow> ustring \<Rightarrow> int option \<Rightarrow>
     (py_error + search_result list) \<times> io_call list" where
  "search enc metric coll query n_results =
     (let n = (case n_results of None \<Rightarrow> MAX_RETRIEVED_DOCS | Some k \<Rightarrow> k);
          query_embedding = enc query;
          calls = [Encode query, CollectionQuery n]
      in case collection_query metric coll query_embedding n of
           Inl e \<Rightarrow> (Inl e, calls)
         | Inr results \<Rightarrow>
             (Inr (map (\<lambda>(i, doc, md, distance).
                     \<lparr>content = doc, metadata = md,
                      similarity_score = 1 - distance, rank = i + 1\<rparr>)
                   (enumerate 0 (zip (documents results)
                                  (zip (metadatas results) (distances results))))),
              calls))"

section \<open>rag_service.py\<close>

subsection \<open>The completion backend\<close>

text \<open>
  A response of the backend: its status, its text, and what the two JSON reads of the source
  evaluate to on it, \<open>[model['id'] for model in response.json()['data']]\<close> and
  \<open>response.json()['choices'][0]['message']['content']\<close>, each either the value or the text
  \<open>str(e)\<close> of the exception the read raises.
\<close>

record http_response =
  status_code :: nat
  response_text :: ustring
  json_model_ids :: "ustring + ustring list"
  json_completion :: "ustring + ustring"

text \<open>
  A request either gets a response, or raises \<open>httpx.ConnectError\<close>, or raises another
  exception \<open>e\<close> (a timeout, for one), kept as \<open>str(e)\<close>.
\<close>

datatype http_outcome =
    Response http_response
  | ConnectError
  | OtherError ustring

record backend =
  get_health :: http_outcome
  get_models :: http_outcome
  post_chat_completions :: "payload \<Rightarrow> http_outcome"

record rag_service =
  available_models :: "ustring list"
  current_model :: "ustring option"

subsection \<open>_refresh_available_models\<close>

definition refresh_available_models ::
    "backend \<Rightarrow> rag_service \<Rightarrow> ustring list \<times> rag_service" where
  "refresh_available_models b self =
     (case get_models b of
        Response response \<Rightarrow>
          if status_code response = 200 then
            (case json_model_ids response of
               Inl e \<Rightarrow> ([], self)
             | Inr ids \<Rightarrow>
                 (ids,
                  (case ids of
                     [] \<Rightarrow> self\<lparr>available_models := ids\<rparr>
                   | first # rest \<Rightarrow>
                       if current_model self = None \<or> current_model self = Some []
                       then self\<lparr>available_models := ids, current_model := Some first\<rparr>
                       else self\<lparr>available_models := ids\<rparr>)))
          else ([], self)
      | ConnectError \<Rightarrow> ([], self)
      | OtherError e \<Rightarrow> ([], self))"

subsection \<open>_format_context\<close>

text \<open>
  The texts \<open>[Istochnik:\<close> and \<open>, relevantnost:\<close> (each followed by a space) that label a
  block, the separator \<open>"\n---\n"\<close> between blocks, and the marker
  \<open>"...\n[Kontekst obrezan]"\<close> appended to a truncated context.
\<close>

definition SOURCE_LABEL :: ustring where
  "SOURCE_LABEL =
    [91, 1048, 1089, 1090, 1086, 1095, 1085, 1080, 1082, 58, 32]"

definition RELEVANCE_LABEL :: ustring where
  "RELEVANCE_LABEL =
    [44, 32, 1088, 1077, 1083, 1077, 1074, 1072, 1085, 1090, 1085, 1086, 1089, 1090,
     1100, 58, 32]"

definition BLOCK_SEPARATOR :: ustring where
  "BLOCK_SEPARATOR =
    [10, 45, 45, 45, 10]"

definition TRUNCATION_MARKER :: ustring where
  "TRUNCATION_MARKER =
    [46, 46, 46, 10, 91, 1050, 1086, 1085, 1090, 1077, 1082, 1089, 1090, 32, 1086, 1073,
     1088, 1077, 1079, 1072, 1085, 93]"

text \<open>
  One block, \<open>f"[Istochnik: {source}, relevantnost: {similarity:.2f}]\n{content}\n"\<close>. The
  rendering \<open>:.2f\<close> of a float is the language's and is a parameter.
\<close>

definition format_block :: "(real \<Rightarrow> ustring) \<Rightarrow> search_result \<Rightarrow> ustring" where
  "format_block format_2f doc =
     SOURCE_LABEL @ filename (metadata doc) @ RELEVANCE_LABEL @
     format_2f (similarity_score doc) @ [93, 10] @ content doc @ [10]"

text \<open>\<open>sep.join(parts)\<close>.\<close>

fun join :: "ustring \<Rightarrow> ustring list \<Rightarrow> ustring" where
  "join sep [] = []"
| "join sep [part] = part"
| "join sep (part # parts) = part @ sep @ join sep parts"

text \<open>
  The source truncates at the constant \<open>MAX_CONTEXT_LENGTH\<close>; the budget is a parameter here and
  \<open>format_context\<close> is the instance the source runs.
\<close>

definition format_context_upto ::
    "nat \<Rightarrow> (real \<Rightarrow> ustring) \<Rightarrow> search_result list \<Rightarrow> ustring" where
  "format_context_upto max_chars format_2f docs =
     (let context = join BLOCK_SEPARATOR (map (format_block format_2f) docs)
      in if length context > max_chars
         then take max_chars context @ TRUNCATION_MARKER
         else context)"

definition format_context :: "(real \<Rightarrow> ustring) \<Rightarrow> search_result list \<Rightarrow> ustring" where
  "format_context = format_context_upto MAX_CONTEXT_LENGTH"

subsection \<open>_build_prompt\<close>

text \<open>The three fixed parts of the prompt template, around \<open>{context}\<close> and \<open>{query}\<close>.\<close>

definition PROMPT_HEAD :: ustring where
  "PROMPT_HEAD =
    [1058, 1099, 32, 1101, 1082, 1089, 1087, 1077, 1088, 1090, 32, 1087, 1086, 32, 1089,
     1080, 1089, 1090, 1077, 1084, 1077, 32, 73, 80, 83, 32, 80, 76, 77, 32, 1080, 32,
     1084, 1086, 1076, 1091, 1083, 1103, 1084, 32, 1088, 1072, 1089, 1096, 1080, 1088,
     1077, 1085, 1080, 1103, 46, 32, 10, 10, 1053, 1072, 32, 1086, 1089, 1085, 1086,
     1074, 1077, 32, 1087, 1088, 1077, 1076, 1086, 1089, 1090, 1072, 1074, 1083, 1077,
     1085, 1085, 1086, 1081, 32, 1076, 1086, 1082, 1091, 1084, 1077, 1085, 1090, 1072,
     1094, 1080, 1080, 32, 1086, 1090, 1074, 1077, 1090, 1100, 32, 1085, 1072, 32, 1074,
     1086, 1087, 1088, 1086, 1089, 32, 1087, 1086, 1083, 1100, 1079, 1086, 1074, 1072,
     1090, 1077, 1083, 1103, 32, 1084, 1072, 1082, 1089, 1080, 1084, 1072, 1083, 1100,
     1085, 1086, 32, 1090, 1086, 1095, 1085, 1086, 32, 1080, 32, 1087, 1086, 1076, 1088,
     1086, 1073, 1085, 1086, 46, 32, 1048, 1089, 1087, 1086, 1083, 1100, 1079, 1091,
     1081, 32, 1090, 1086, 1083, 1100, 1082, 1086, 32, 1080, 1085, 1092, 1086, 1088,
     1084, 1072, 1094, 1080, 1102, 32, 1080, 1079, 32, 1087, 1088, 1077, 1076, 1086,
     1089, 1090, 1072, 1074, 1083, 1077, 1085, 1085, 1099, 1093, 32, 1080, 1089, 1090,
     1086, 1095, 1085, 1080, 1082, 1086, 1074, 46, 10, 10, 1044, 1054, 1050, 1059, 1052,
     1045, 1053, 1058, 1040, 1062, 1048, 1071, 58, 10]"

definition PROMPT_QUESTION :: ustring where
  "PROMPT_QUESTION =
    [10, 10, 1042, 1054, 1055, 1056, 1054, 1057, 58, 32]"

definition PROMPT_TAIL :: ustring where
  "PROMPT_TAIL =
    [10, 10, 1054, 1058, 1042, 1045, 1058, 58, 32, 1054, 1090, 1074, 1077, 1095, 1072,
     1081, 32, 1085, 1072, 32, 1088, 1091, 1089, 1089, 1082, 1086, 1084, 32, 1103, 1079,
     1099, 1082, 1077, 44, 32, 1089, 1090, 1088, 1091, 1082, 1090, 1091, 1088, 1080,
     1088, 1091, 1081, 32, 1086, 1090, 1074, 1077, 1090, 44, 32, 1091, 1082, 1072, 1079,
     1099, 1074, 1072, 1081, 32, 1080, 1089, 1090, 1086, 1095, 1085, 1080, 1082, 1080,
     32, 1080, 1085, 1092, 1086, 1088, 1084, 1072, 1094, 1080, 1080, 32, 1082, 1086,
     1075, 1076, 1072, 32, 1101, 1090, 1086, 32, 1091, 1084, 1077, 1089, 1090, 1085,
     1086, 46]"

definition build_prompt :: "ustring \<Rightarrow> ustring \<Rightarrow> ustring" where
  "build_prompt query context = PROMPT_HEAD @ context @ PROMPT_QUESTION @ query @ PROMPT_TAIL"

subsection \<open>_call_lmstudio\<close>

text \<open>
  The four diagnostic texts: the backend is not available (health status other than 200), the
  completion call was answered with another status (a prefix, followed by status and text), the
  connection failed, and any other exception (a prefix, followed by \<open>str(e)\<close>).
\<close>

definition HEALTH_DIAGNOSTIC :: ustring where
  "HEALTH_DIAGNOSTIC =
    [1054, 1096, 1080, 1073, 1082, 1072, 58, 32, 76, 77, 83, 116, 117, 100, 105, 111,
     32, 1085, 1077, 1076, 1086, 1089, 1090, 1091, 1087, 1077, 1085, 46, 32, 1059, 1073,
     1077, 1076, 1080, 1090, 1077, 1089, 1100, 44, 32, 1095, 1090, 1086, 32, 1089, 1077,
     1088, 1074, 1077, 1088, 32, 1079, 1072, 1087, 1091, 1097, 1077, 1085, 32, 1085,
     1072, 32, 108, 111, 99, 97, 108, 104, 111, 115, 116, 58, 49, 50, 51, 52]"

definition API_DIAGNOSTIC_PREFIX :: ustring where
  "API_DIAGNOSTIC_PREFIX =
    [1054, 1096, 1080, 1073, 1082, 1072, 32, 76, 77, 83, 116, 117, 100, 105, 111, 32,
     65, 80, 73, 58, 32]"

definition CONNECT_DIAGNOSTIC :: ustring where
  "CONNECT_DIAGNOSTIC =
    [1054, 1096, 1080, 1073, 1082, 1072, 32, 1087, 1086, 1076, 1082, 1083, 1102, 1095,
     1077, 1085, 1080, 1103, 32, 1082, 32, 76, 77, 83, 116, 117, 100, 105, 111, 46, 32,
     1059, 1073, 1077, 1076, 1080, 1090, 1077, 1089, 1100, 44, 32, 1095, 1090, 1086, 32,
     76, 77, 83, 116, 117, 100, 105, 111, 32, 1079, 1072, 1087, 1091, 1097, 1077, 1085,
     32, 1085, 1072, 32, 108, 111, 99, 97, 108, 104, 111, 115, 116, 58, 49, 50, 51, 52]"

definition EXCEPTION_DIAGNOSTIC_PREFIX :: ustring where
  "EXCEPTION_DIAGNOSTIC_PREFIX =
    [1054, 1096, 1080, 1073, 1082, 1072, 32, 1087, 1088, 1080, 32, 1086, 1073, 1088,
     1072, 1097, 1077, 1085, 1080, 1080, 32, 1082, 32, 76, 77, 83, 116, 117, 100, 105,
     111, 58, 32]"

text \<open>
  \<open>if not model\<close> holds for \<open>None\<close> and for the empty string. The object \<open>self\<close> is passed as
  the source passes it. The \<open>Authorization\<close> header of the request is not modelled.
\<close>

definition call_lmstudio ::
    "backend \<Rightarrow> rag_service \<Rightarrow> ustring \<Rightarrow> ustring option \<Rightarrow> ustring \<times> io_call list" where
  "call_lmstudio b self prompt model =
     (case get_health b of
        ConnectError \<Rightarrow> (CONNECT_DIAGNOSTIC, [HttpGet (ascii ''/health'')])
      | OtherError e \<Rightarrow> (EXCEPTION_DIAGNOSTIC_PREFIX @ e, [HttpGet (ascii ''/health'')])
      | Response health_response \<Rightarrow>
          if status_code health_response \<noteq> 200
          then (HEALTH_DIAGNOSTIC, [HttpGet (ascii ''/health'')])
          else
            let model = (case model of
                           None \<Rightarrow> LMSTUDIO_MODEL
                         | Some m \<Rightarrow> if m = [] then LMSTUDIO_MODEL else m);
                payload = \<lparr>payload_model = model,
                           payload_messages = [(ascii ''user'', prompt)],
                           payload_temperature = 4 / 10,
                           payload_max_tokens = 1200,
                           payload_stream = False\<rparr>;
                calls = [HttpGet (ascii ''/health''),
                         HttpPost (ascii ''/chat/completions'') payload]
            in (case post_chat_completions b payload of
                  ConnectError \<Rightarrow> (CONNECT_DIAGNOSTIC, calls)
                | OtherError e \<Rightarrow> (EXCEPTION_DIAGNOSTIC_PREFIX @ e, calls)
                | Response response \<Rightarrow>
                    if status_code response = 200 then
                      (case json_completion response of
                         Inl e \<Rightarrow> (EXCEPTION_DIAGNOSTIC_PREFIX @ e, calls)
                       | Inr completion \<Rightarrow> (completion, calls))
                    else
                      (API_DIAGNOSTIC_PREFIX @ show_nat (status_code response) @
                         ascii '' - '' @ response_text response,
                       calls)))"

subsection \<open>query\<close>

text \<open>The fixed answer when nothing was retrieved (\<open>Izvinite, ya ne nashel ...\<close>).\<close>

definition NO_INFO_ANSWER :: ustring where
  "NO_INFO_ANSWER =
    [1048, 1079, 1074, 1080, 1085, 1080, 1090, 1077, 44, 32, 1103, 32, 1085, 1077, 32,
     1085, 1072, 1096, 1077, 1083, 32, 1088, 1077, 1083, 1077, 1074, 1072, 1085, 1090,
     1085, 1086, 1081, 32, 1080, 1085, 1092, 1086, 1088, 1084, 1072, 1094, 1080, 1080,
     32, 1074, 32, 1076, 1086, 1082, 1091, 1084, 1077, 1085, 1090, 1072, 1094, 1080,
     1080, 32, 1087, 1086, 32, 1074, 1072, 1096, 1077, 1084, 1091, 32, 1079, 1072, 1087,
     1088, 1086, 1089, 1091, 46]"

text \<open>
  The dictionary \<open>query\<close> returns. The keys \<open>answer\<close>, \<open>sources\<close> and \<open>query\<close> are in every
  result; \<open>retrieved_docs\<close> and \<open>context_length\<close> are \<open>None\<close> when the key is absent.
  \<open>list(set(...))\<close> holds each file name once, in an order that depends on the hashing of the
  strings and is not fixed by the source; \<open>sources\<close> is therefore the set of the file names, and
  so is the field of the response built from it.
\<close>

record query_dict =
  answer :: ustring
  sources :: "ustring set"
  retrieved_docs :: "nat option"
  query_echo :: ustring
  context_length :: "nat option"

definition query ::
    "(ustring \<Rightarrow> 'v) \<Rightarrow> ('v \<Rightarrow> 'v \<Rightarrow> real) \<Rightarrow> (real \<Rightarrow> ustring) \<Rightarrow> backend \<Rightarrow> rag_service \<Rightarrow>
     'v collection \<Rightarrow> ustring \<Rightarrow> int option \<Rightarrow> (py_error + query_dict) \<times> io_call list" where
  "query enc metric format_2f b self coll question n_docs =
     (let n_docs = (case n_docs of None \<Rightarrow> MAX_RETRIEVED_DOCS | Some k \<Rightarrow> k)
      in case search enc metric coll question (Some n_docs) of
           (Inl e, calls) \<Rightarrow> (Inl e, calls)
         | (Inr relevant_docs, calls) \<Rightarrow>
             if relevant_docs = [] then
               (Inr \<lparr>answer = NO_INFO_ANSWER, sources = {}, retrieved_docs = None,
                     query_echo = question, context_length = None\<rparr>,
                calls)
             else
               let context = format_context format_2f relevant_docs;
                   prompt = build_prompt question context;
                   (answer, backend_calls) = call_lmstudio b self prompt None
               in (Inr \<lparr>answer = answer,
                        sources = set (map (\<lambda>doc. filename (metadata doc)) relevant_docs),
                        retrieved_docs = Some (length relevant_docs),
                        query_echo = question,
                        context_length = Some (length context)\<rparr>,
                   calls @ backend_calls))"

section \<open>api.py\<close>

record query_request =
  question :: ustring
  max_docs :: "int option"

record query_response =
  response_answer :: ustring
  response_sources :: "ustring set"
  response_retrieved_docs :: nat
  response_query :: ustring
  response_context_length :: nat

datatype api_exception =
    HTTPException nat
  | ValidationError
  | ServiceError py_error

text \<open>
  \<open>QueryResponse(**result)\<close>: the response model declares its five fields without defaults, so
  a dictionary that lacks one of them fails validation.
\<close>

definition QueryResponse :: "query_dict \<Rightarrow> api_exception + query_response" where
  "QueryResponse d =
     (case (retrieved_docs d, context_length d) of
        (Some n, Some c) \<Rightarrow>
          Inr \<lparr>response_answer = answer d, response_sources = sources d,
               response_retrieved_docs = n, response_query = query_echo d,
               response_context_length = c\<rparr>
      | _ \<Rightarrow> Inl ValidationError)"

text \<open>The body of the \<open>try\<close> block of \<open>query_rag\<close>.\<close>

definition query_rag_try ::
    "(ustring \<Rightarrow> 'v) \<Rightarrow> ('v \<Rightarrow> 'v \<Rightarrow> real) \<Rightarrow> (real \<Rightarrow> ustring) \<Rightarrow> backend \<Rightarrow> rag_service \<Rightarrow>
     'v collection \<Rightarrow> query_request \<Rightarrow> (api_exception + query_response) \<times> io_call list" where
  "query_rag_try enc metric format_2f b self coll request =
     (if strip (question request) = [] then (Inl (HTTPException 400), [])
      else
        case query enc metric format_2f b self coll (question request) (max_docs request) of
          (Inl e, calls) \<Rightarrow> (Inl (ServiceError e), calls)
        | (Inr result, calls) \<Rightarrow> (QueryResponse result, calls))"

text \<open>
  \<open>except Exception as e: raise HTTPException(status_code=500, ...)\<close>: the handler catches every
  exception of the body, the \<open>HTTPException\<close> with status 400 among them.
\<close>

definition query_rag ::
    "(ustring \<Rightarrow> 'v) \<Rightarrow> ('v \<Rightarrow> 'v \<Rightarrow> real) \<Rightarrow> (real \<Rightarrow> ustring) \<Rightarrow> backend \<Rightarrow> rag_service \<Rightarrow>
     'v collection \<Rightarrow> query_request \<Rightarrow> (api_exception + query_response) \<times> io_call list" where
  "query_rag enc metric format_2f b self coll request =
     (case query_rag_try enc metric format_2f b self coll request of
        (Inl e, calls) \<Rightarrow> (Inl (HTTPException 500), calls)
      | (Inr response, calls) \<Rightarrow> (Inr response, calls))"

section \<open>Properties of the string functions\<close>

lemma show_nat_not_Nil: "show_nat n \<noteq> []"
  by (subst show_nat.simps) simp

lemma show_nat_digits: "c \<in> set (show_nat n) \<Longrightarrow> 48 \<le> c \<and> c \<le> 57"
proof (induction n rule: show_nat.induct)
  case (1 n)
  show ?case
  proof (cases "n < 10")
    case True
    with "1.prems" show ?thesis
      by (subst (asm) show_nat.simps) simp
  next
    case False
    from "1.prems" have "c \<in> set (show_nat (n div 10)) \<or> c = 48 + n mod 10"
      by (subst (asm) show_nat.simps) (auto simp: False)
    then show ?thesis
    proof
      assume "c \<in> set (show_nat (n div 10))"
      with "1.IH" False show ?thesis by simp
    next
      assume "c = 48 + n mod 10"
      moreover have "n mod 10 < 10" by simp
      ultimately show ?thesis by linarith
    qed
  qed
qed

lemma show_nat_inject: "show_nat m = show_nat n \<Longrightarrow> m = n"
proof (induction m arbitrary: n rule: show_nat.induct)
  case (1 m)
  show ?case
  proof (cases "m < 10")
    case m: True
    show ?thesis
    proof (cases "n < 10")
      case True
      with m "1.prems" show ?thesis
        by (simp add: show_nat.simps [of m] show_nat.simps [of n])
    next
      case False
      with m "1.prems" show_nat_not_Nil [of "n div 10"] show ?thesis
        by (simp add: show_nat.simps [of m] show_nat.simps [of n] Cons_eq_append_conv)
    qed
  next
    case m: False
    show ?thesis
    proof (cases "n < 10")
      case True
      with m "1.prems" show_nat_not_Nil [of "m div 10"] show ?thesis
        by (simp add: show_nat.simps [of m] show_nat.simps [of n] append_eq_Cons_conv)
    next
      case False
      with m "1.prems" have eq: "show_nat (m div 10) = show_nat (n div 10)" "m mod 10 = n mod 10"
        by (simp_all add: show_nat.simps [of m] show_nat.simps [of n])
      from "1.IH" [OF m eq(1)] have "m div 10 = n div 10" .
      with eq(2) show ?thesis
        by (metis div_mult_mod_eq)
    qed
  qed
qed

lemma split_at_last:
  assumes "xs @ s # ds = xs' @ s # ds'" and "s \<notin> set ds" and "s \<notin> set ds'"
  shows "xs = xs' \<and> ds = ds'"
proof -
  have "takeWhile (\<lambda>c. c \<noteq> s) (rev (xs @ s # ds)) = rev ds"
    using assms(2) by (auto simp: takeWhile_tail)
  moreover have "takeWhile (\<lambda>c. c \<noteq> s) (rev (xs' @ s # ds')) = rev ds'"
    using assms(3) by (auto simp: takeWhile_tail)
  ultimately have "ds = ds'"
    using assms(1) by (metis rev_rev_ident)
  with assms(1) show ?thesis by simp
qed

lemma set_strip: "c \<in> set (strip s) \<Longrightarrow> c \<in> set s"
  by (auto simp: strip_def dest!: set_dropWhileD)

lemma last_dropWhile_nonempty: "dropWhile P xs \<noteq> [] \<Longrightarrow> last (dropWhile P xs) = last xs"
  by (induction xs) (auto split: if_splits)

lemma strip_trimmed:
  assumes "strip s \<noteq> []"
  shows "\<not> py_isspace (hd (strip s)) \<and> \<not> py_isspace (last (strip s))"
proof -
  let ?ys = "dropWhile py_isspace s"
  let ?zs = "dropWhile py_isspace (rev ?ys)"
  from assms have zs: "?zs \<noteq> []"
    by (simp add: strip_def)
  have ys: "?ys \<noteq> []"
  proof
    assume empty: "?ys = []"
    have "?zs = []"
      unfolding empty by simp
    with zs show False
      by contradiction
  qed
  have "last (strip s) = hd ?zs"
    using zs by (simp add: strip_def last_rev)
  moreover have "\<not> py_isspace (hd ?zs)"
    using zs by (rule hd_dropWhile)
  moreover have "hd (strip s) = last ?zs"
    using zs by (simp add: strip_def hd_rev)
  moreover have "last ?zs = last (rev ?ys)"
    using zs by (rule last_dropWhile_nonempty)
  moreover have "last (rev ?ys) = hd ?ys"
    using ys by (simp add: last_rev)
  moreover have "\<not> py_isspace (hd ?ys)"
    using ys by (rule hd_dropWhile)
  ultimately show ?thesis
    by simp
qed

section \<open>Properties of document_processor.py\<close>

subsection \<open>clean_text\<close>

text \<open>
  Claim C10: clean_text is idempotent and its output never holds two whitespace characters in a
  row. The source collapses the whitespace first and removes the control characters afterwards,
  so two spaces that a control character kept apart end up next to each other. On the input
  \<open>"a \x00 b"\<close> the result is \<open>"a  b"\<close>, with two spaces in a row, and a second application
  changes it to \<open>"a b"\<close>.
\<close>

theorem clean_text_control_between_spaces:
  "clean_text [97, 32, 0, 32, 98] = [97, 32, 32, 98] \<and>
   clean_text (clean_text [97, 32, 0, 32, 98]) = [97, 32, 98]"
  by (simp add: clean_text_def strip_def sub_control_def is_control_def py_isspace_def)

text \<open>
  The other two parts of the normalisation hold for every input: the output holds no character
  of the removed control ranges, and it neither begins nor ends with whitespace.
\<close>

lemma clean_text_no_control: "c \<in> set (clean_text t) \<Longrightarrow> \<not> is_control c"
  using set_strip [of c "sub_control (sub_whitespace t)"]
  by (simp add: clean_text_def sub_control_def)

lemma clean_text_trimmed:
  "clean_text t \<noteq> [] \<Longrightarrow>
     \<not> py_isspace (hd (clean_text t)) \<and> \<not> py_isspace (last (clean_text t))"
  unfolding clean_text_def by (rule strip_trimmed)

subsection \<open>process_document\<close>

lemma chunk_ids_of_enumerate:
  "map (\<lambda>d. chunk_id (metadata d))
     (map (\<lambda>(i, chunk).
        \<lparr>content = chunk,
         metadata = \<lparr>source = s, filename = f, chunk_id = i, total_chunks = t\<rparr>\<rparr>)
        (enumerate n chunks)) = [n..<n + length chunks]"
  by (induction chunks arbitrary: n) (simp_all add: upt_rec)

text \<open>
  Claim C9: when process_document returns n fragments, their chunk_id values are 0, 1, ..., n-1
  in the order of the list, and each fragment carries total_chunks = n.
\<close>

theorem process_document_numbering:
  assumes "process_document split_text fs p = Inr docs"
  shows "map (\<lambda>d. chunk_id (metadata d)) docs = [0..<length docs] \<and>
         (\<forall>d \<in> set docs. total_chunks (metadata d) = length docs)"
proof (cases "docs = []")
  case True
  then show ?thesis by simp
next
  case False
  with assms obtain body where
    docs: "docs = map (\<lambda>(i, chunk).
             \<lparr>content = chunk,
              metadata = \<lparr>source = path_str p, filename = path_name p,
                          chunk_id = i, total_chunks = length (split_text body)\<rparr>\<rparr>)
             (enumerate 0 (split_text body))"
    by (auto simp: process_document_def Let_def split: option.splits sum.splits if_splits)
  have len: "length docs = length (split_text body)"
    by (simp add: docs)
  have "map (\<lambda>d. chunk_id (metadata d)) docs = [0..<0 + length (split_text body)]"
    unfolding docs by (rule chunk_ids_of_enumerate)
  moreover have "\<forall>d \<in> set docs. total_chunks (metadata d) = length (split_text body)"
    unfolding docs by auto
  ultimately show ?thesis
    by (simp add: len)
qed

text \<open>
  The theorem at a text file \<open>"abc"\<close> and a splitter that cuts after two characters: two
  fragments, numbered 0 and 1, each with total_chunks = 2.
\<close>

theorem process_document_numbering_witness:
  "process_document (\<lambda>t. [take 2 t, drop 2 t])
     [[102] \<mapsto> \<lparr>pdf_pages = None, utf8_text = Some [97, 98, 99]\<rparr>]
     \<lparr>path_str = [102], path_name = [102], path_suffix_lower = []\<rparr>
   = Inr [\<lparr>content = [97, 98],
           metadata = \<lparr>source = [102], filename = [102], chunk_id = 0, total_chunks = 2\<rparr>\<rparr>,
          \<lparr>content = [99],
           metadata = \<lparr>source = [102], filename = [102], chunk_id = 1, total_chunks = 2\<rparr>\<rparr>]
   \<and> map (\<lambda>d. chunk_id (metadata d))
        [\<lparr>content = [97, 98],
          metadata = \<lparr>source = [102], filename = [102], chunk_id = 0, total_chunks = 2\<rparr>\<rparr>,
         \<lparr>content = [99],
          metadata = \<lparr>source = [102], filename = [102], chunk_id = 1, total_chunks = 2\<rparr>\<rparr>]
       = [0..<2]"
proof -
  have run: "process_document (\<lambda>t. [take 2 t, drop 2 t])
     [[102] \<mapsto> \<lparr>pdf_pages = None, utf8_text = Some [97, 98, 99]\<rparr>]
     \<lparr>path_str = [102], path_name = [102], path_suffix_lower = []\<rparr>
   = Inr [\<lparr>content = [97, 98],
           metadata = \<lparr>source = [102], filename = [102], chunk_id = 0, total_chunks = 2\<rparr>\<rparr>,
          \<lparr>content = [99],
           metadata = \<lparr>source = [102], filename = [102], chunk_id = 1, total_chunks = 2\<rparr>\<rparr>]"
    by (simp add: process_document_def ascii_def strip_def py_isspace_def)
  from process_document_numbering [OF run] run show ?thesis
    by (simp add: upt_rec)
qed

section \<open>Properties of vector_database.py\<close>

subsection \<open>add_documents\<close>

lemma make_id_inject:
  "make_id m = make_id m' \<longleftrightarrow> filename m = filename m' \<and> chunk_id m = chunk_id m'"
proof
  assume eq: "make_id m = make_id m'"
  have "95 \<notin> set (show_nat (chunk_id m))" "95 \<notin> set (show_nat (chunk_id m'))"
    using show_nat_digits by fastforce+
  with eq have "filename m = filename m' \<and> show_nat (chunk_id m) = show_nat (chunk_id m')"
    by (intro split_at_last [where s = 95]) (simp_all add: make_id_def)
  then show "filename m = filename m' \<and> chunk_id m = chunk_id m'"
    by (simp add: show_nat_inject)
next
  assume "filename m = filename m' \<and> chunk_id m = chunk_id m'"
  then show "make_id m = make_id m'"
    by (simp add: make_id_def)
qed

lemma filter_key_single:
  "distinct (map f xs) \<Longrightarrow> e \<in> set xs \<Longrightarrow> filter (\<lambda>x. f x = f e) xs = [e]"
proof (induction xs)
  case Nil
  then show ?case by simp
next
  case (Cons x xs)
  show ?case
  proof (cases "x = e")
    case True
    with Cons.prems have "\<forall>y \<in> set xs. f y \<noteq> f e"
      by (auto simp: image_iff)
    then have "filter (\<lambda>y. f y = f e) xs = []"
      by (simp add: filter_empty_conv)
    with True show ?thesis by simp
  next
    case False
    with Cons.prems have "e \<in> set xs" "f x \<noteq> f e"
      by (auto simp: image_iff)
    with Cons show ?thesis by simp
  qed
qed

lemma entry_key_eq_iff_id:
  assumes "entry_id x = make_id (entry_metadata x)" and "entry_id y = make_id (entry_metadata y)"
  shows "entry_key x = entry_key y \<longleftrightarrow> entry_id x = entry_id y"
  using assms by (simp add: entry_key_def make_id_inject)

lemma index_invariant_keys:
  assumes "index_invariant coll"
  shows "distinct (map entry_key coll)"
proof -
  from assms have d: "distinct (map entry_id coll)"
    and ids: "\<forall>e \<in> set coll. entry_id e = make_id (entry_metadata e)"
    by (simp_all add: index_invariant_def list_all_iff)
  have "inj_on entry_key (set coll)"
  proof (rule inj_onI)
    fix x y assume "x \<in> set coll" "y \<in> set coll" "entry_key x = entry_key y"
    with ids have "entry_id x = entry_id y"
      by (simp add: entry_key_eq_iff_id)
    with d \<open>x \<in> set coll\<close> \<open>y \<in> set coll\<close> show "x = y"
      by (meson distinct_map inj_onD)
  qed
  moreover from d have "distinct coll"
    by (simp add: distinct_map)
  ultimately show ?thesis
    by (simp add: distinct_map)
qed

lemma index_invariant_empty: "index_invariant []"
  by (simp add: index_invariant_def)

lemma add_documents_result:
  assumes "add_documents enc coll docs = Inr coll'"
  shows "coll' = coll @ filter (\<lambda>e. entry_id e \<notin> set (map entry_id coll)) (map (make_entry enc) docs)"
    and "docs \<noteq> [] \<Longrightarrow> distinct (map entry_id (map (make_entry enc) docs))"
  using assms by (auto simp: add_documents_def collection_add_def split: if_splits)

lemma add_documents_invariant:
  assumes "index_invariant coll" and "add_documents enc coll docs = Inr coll'"
  shows "index_invariant coll'"
proof (cases "docs = []")
  case True
  with assms show ?thesis by (simp add: add_documents_def)
next
  case False
  let ?new = "filter (\<lambda>e. entry_id e \<notin> set (map entry_id coll)) (map (make_entry enc) docs)"
  from add_documents_result [OF assms(2)] False
  have coll': "coll' = coll @ ?new" and d: "distinct (map entry_id (map (make_entry enc) docs))"
    by simp_all
  from d have "distinct (map entry_id ?new)"
    by (rule distinct_map_filter)
  moreover have "set (map entry_id coll) \<inter> set (map entry_id ?new) = {}"
    by (auto simp: image_iff)
  moreover have "list_all (\<lambda>e. entry_id e = make_id (entry_metadata e)) ?new"
    by (auto simp: list_all_iff make_entry_def)
  ultimately show ?thesis
    using assms(1) by (simp add: coll' index_invariant_def)
qed

text \<open>
  Claim C1, as amended: for every collection the source can build, and every key
  (filename, chunk_id) that is already in it, a successful add_documents leaves exactly one entry
  with that key, and that entry is the one stored before: the content of a re-added document is
  ignored, not written over the old one. No key ever has two entries.
\<close>

theorem add_documents_existing_key:
  assumes "index_invariant coll"
    and "add_documents enc coll docs = Inr coll'"
    and "e \<in> set coll"
  shows "index_invariant coll' \<and> distinct (map entry_key coll') \<and>
         filter (\<lambda>x. entry_key x = entry_key e) coll' = [e]"
proof -
  have inv': "index_invariant coll'"
    using assms(1,2) by (rule add_documents_invariant)
  then have keys': "distinct (map entry_key coll')"
    by (rule index_invariant_keys)
  from add_documents_result(1) [OF assms(2)] assms(3) have "e \<in> set coll'"
    by simp
  with keys' have "filter (\<lambda>x. entry_key x = entry_key e) coll' = [e]"
    by (rule filter_key_single)
  with inv' keys' show ?thesis by simp
qed

text \<open>
  The theorem at a collection holding chunk 0 of file \<open>f\<close> with content \<open>"a"\<close>, to which chunk 0 of \<open>f\<close>
  is added again with content \<open>"b"\<close>.
\<close>

theorem add_documents_existing_key_witness:
  "index_invariant
     [\<lparr>entry_id = [102, 95, 48], entry_embedding = [97::nat], entry_document = [97],
       entry_metadata = \<lparr>source = [102], filename = [102], chunk_id = 0, total_chunks = 1\<rparr>\<rparr>] \<and>
   add_documents (\<lambda>t. t)
     [\<lparr>entry_id = [102, 95, 48], entry_embedding = [97::nat], entry_document = [97],
       entry_metadata = \<lparr>source = [102], filename = [102], chunk_id = 0, total_chunks = 1\<rparr>\<rparr>]
     [\<lparr>content = [98],
       metadata = \<lparr>source = [102], filename = [102], chunk_id = 0, total_chunks = 1\<rparr>\<rparr>]
   = Inr [\<lparr>entry_id = [102, 95, 48], entry_embedding = [97::nat], entry_document = [97],
           entry_metadata = \<lparr>source = [102], filename = [102], chunk_id = 0, total_chunks = 1\<rparr>\<rparr>] \<and>
   filter (\<lambda>x. entry_key x = ([102], 0))
     [\<lparr>entry_id = [102, 95, 48], entry_embedding = [97::nat], entry_document = [97],
       entry_metadata = \<lparr>source = [102], filename = [102], chunk_id = 0, total_chunks = 1\<rparr>\<rparr>]
   = [\<lparr>entry_id = [102, 95, 48], entry_embedding = [97::nat], entry_document = [97],
       entry_metadata = \<lparr>source = [102], filename = [102], chunk_id = 0, total_chunks = 1\<rparr>\<rparr>]"
proof -
  let ?e = "\<lparr>entry_id = [102, 95, 48], entry_embedding = [97::nat], entry_document = [97],
       entry_metadata = \<lparr>source = [102], filename = [102], chunk_id = 0, total_chunks = 1\<rparr>\<rparr>"
  let ?d = "\<lparr>content = [98],
       metadata = \<lparr>source = [102], filename = [102], chunk_id = 0, total_chunks = 1\<rparr>\<rparr>"
  have inv: "index_invariant [?e]"
    by (simp add: index_invariant_def make_id_def show_nat.simps)
  have run: "add_documents (\<lambda>t. t) [?e] [?d] = Inr [?e]"
    by (simp add: add_documents_def collection_add_def make_entry_def make_id_def show_nat.simps)
  have mem: "?e \<in> set [?e]"
    by simp
  from add_documents_existing_key [OF inv run mem] inv run show ?thesis
    by (simp add: entry_key_def)
qed

text \<open>
  Claim C1 as stated fails: chunk 0 of file \<open>f\<close> is added with content \<open>"a"\<close> and then again with
  content \<open>"b"\<close>; the collection still holds the one entry with content \<open>"a"\<close>, not the latest
  content.
\<close>

theorem add_documents_no_overwrite_counterexample:
  "add_documents (\<lambda>t. t) []
     [\<lparr>content = [97],
       metadata = \<lparr>source = [102], filename = [102], chunk_id = 0, total_chunks = 1\<rparr>\<rparr>]
   = Inr [\<lparr>entry_id = [102, 95, 48], entry_embedding = [97], entry_document = [97],
           entry_metadata = \<lparr>source = [102], filename = [102], chunk_id = 0, total_chunks = 1\<rparr>\<rparr>] \<and>
   add_documents (\<lambda>t. t)
     [\<lparr>entry_id = [102, 95, 48], entry_embedding = [97], entry_document = [97],
       entry_metadata = \<lparr>source = [102], filename = [102], chunk_id = 0, total_chunks = 1\<rparr>\<rparr>]
     [\<lparr>content = [98],
       metadata = \<lparr>source = [102], filename = [102], chunk_id = 0, total_chunks = 1\<rparr>\<rparr>]
   = Inr [\<lparr>entry_id = [102, 95, 48], entry_embedding = [97], entry_document = [97],
           entry_metadata = \<lparr>source = [102], filename = [102], chunk_id = 0, total_chunks = 1\<rparr>\<rparr>]"
  by (simp add: add_documents_def collection_add_def make_entry_def make_id_def show_nat.simps)

subsection \<open>search\<close>

lemma format_hits:
  "map (\<lambda>(i, doc, md, distance).
          \<lparr>content = doc, metadata = md, similarity_score = 1 - distance, rank = Suc i\<rparr>)
     (enumerate k (zip (map entry_document hits)
                    (zip (map entry_metadata hits) (map d hits))))
   = map (\<lambda>(i, e). \<lparr>content = entry_document e, metadata = entry_metadata e,
                     similarity_score = 1 - d e, rank = Suc i\<rparr>) (enumerate k hits)"
  by (induction hits arbitrary: k) simp_all

lemma similarity_of_hits:
  "map similarity_score
     (map (\<lambda>(i, e). \<lparr>content = entry_document e, metadata = entry_metadata e,
                      similarity_score = 1 - d e, rank = i + 1\<rparr>) (enumerate k hits))
   = map (\<lambda>e. 1 - d e) hits"
  by (induction hits arbitrary: k) simp_all

lemma rank_of_hits:
  "map rank
     (map (\<lambda>(i, e). \<lparr>content = entry_document e, metadata = entry_metadata e,
                      similarity_score = 1 - d e, rank = i + 1\<rparr>) (enumerate k hits))
   = [Suc k..<Suc k + length hits]"
  by (induction hits arbitrary: k) (simp_all add: upt_rec)

lemma search_positive:
  assumes "0 < n"
  shows "search enc metric coll q (Some n) =
     (Inr (map (\<lambda>(i, e). \<lparr>content = entry_document e, metadata = entry_metadata e,
                           similarity_score = 1 - metric (enc q) (entry_embedding e),
                           rank = i + 1\<rparr>)
            (enumerate 0 (take (nat n)
               (sort_key (\<lambda>e. metric (enc q) (entry_embedding e)) coll)))),
      [Encode q, CollectionQuery n])"
  using assms by (simp add: search_def collection_query_def Let_def format_hits)

lemma search_default:
  "search enc metric coll q None = search enc metric coll q (Some MAX_RETRIEVED_DOCS)"
  by (simp add: search_def)

lemma sorted_similarity:
  fixes d :: "'a \<Rightarrow> real"
  assumes "sorted (map d hits)"
  shows "sorted_wrt (\<lambda>a b. b \<le> a) (map (\<lambda>e. 1 - d e) hits)"
  using assms by (simp add: sorted_wrt_map)

text \<open>
  Claim C7: for every collection and every k > 0 (given, or the default MAX_RETRIEVED_DOCS when
  n_results is left out), search returns at most k results and at most as many as the collection
  holds, with similarity scores that never increase along the list, and ranks 1, 2, ... in list
  order, so that rank 1 carries the highest similarity. Scores are real numbers in the model;
  \<open>1 - distance\<close> reverses the ascending order of the distances.
\<close>

theorem search_at_most_k_sorted:
  assumes "n_results = Some k \<or> (n_results = None \<and> k = MAX_RETRIEVED_DOCS)" and "0 < k"
  shows "\<exists>results. fst (search enc metric coll q n_results) = Inr results \<and>
           length results \<le> nat k \<and> length results \<le> length coll \<and>
           sorted_wrt (\<lambda>a b. b \<le> a) (map similarity_score results) \<and>
           map rank results = [1..<Suc (length results)]"
proof -
  let ?d = "\<lambda>e. metric (enc q) (entry_embedding e)"
  let ?hits = "take (nat k) (sort_key ?d coll)"
  let ?results = "map (\<lambda>(i, e). \<lparr>content = entry_document e, metadata = entry_metadata e,
                           similarity_score = 1 - ?d e, rank = i + 1\<rparr>) (enumerate 0 ?hits)"
  from assms(1) have "search enc metric coll q n_results = search enc metric coll q (Some k)"
    by (auto simp: search_default)
  with assms(2) have run: "fst (search enc metric coll q n_results) = Inr ?results"
    by (simp add: search_positive)
  have "sorted (map ?d (sort_key ?d coll))"
    by simp
  then have "sorted (take (nat k) (map ?d (sort_key ?d coll)))"
    by (rule sorted_wrt_take)
  then have "sorted (map ?d ?hits)"
    by (simp add: take_map)
  then have "sorted_wrt (\<lambda>a b. b \<le> a) (map similarity_score ?results)"
    unfolding similarity_of_hits by (rule sorted_similarity)
  moreover have "map rank ?results = [1..<Suc (length ?results)]"
    unfolding rank_of_hits by simp
  moreover have "length ?results \<le> nat k" "length ?results \<le> length coll"
    by simp_all
  ultimately show ?thesis
    using run by blast
qed

text \<open>
  The theorem at a collection of three entries, embedded by the length of their text, and
  k = 2: the two results are the two entries nearest to the query, the nearer one first.
\<close>

theorem search_at_most_k_sorted_witness:
  "0 < (2::int) \<and>
   fst (search (\<lambda>t. real (length t)) (\<lambda>a b. (a - b)\<^sup>2)
     [\<lparr>entry_id = [102, 95, 48], entry_embedding = 3, entry_document = [97, 98, 99],
       entry_metadata = \<lparr>source = [102], filename = [102], chunk_id = 0, total_chunks = 3\<rparr>\<rparr>,
      \<lparr>entry_id = [102, 95, 49], entry_embedding = 1, entry_document = [100],
       entry_metadata = \<lparr>source = [102], filename = [102], chunk_id = 1, total_chunks = 3\<rparr>\<rparr>,
      \<lparr>entry_id = [102, 95, 50], entry_embedding = 2, entry_document = [101, 102],
       entry_metadata = \<lparr>source = [102], filename = [102], chunk_id = 2, total_chunks = 3\<rparr>\<rparr>]
     [113] (Some 2))
   = Inr [\<lparr>content = [100],
           metadata = \<lparr>source = [102], filename = [102], chunk_id = 1, total_chunks = 3\<rparr>,
           similarity_score = 1, rank = 1\<rparr>,
          \<lparr>content = [101, 102],
           metadata = \<lparr>source = [102], filename = [102], chunk_id = 2, total_chunks = 3\<rparr>,
           similarity_score = 0, rank = 2\<rparr>] \<and>
   sorted_wrt (\<lambda>a b. b \<le> a) [1, 0 :: real]"
  using search_at_most_k_sorted [of "Some 2" 2 "\<lambda>t. real (length t)" "\<lambda>a b. (a - b)\<^sup>2"
    "[\<lparr>entry_id = [102, 95, 48], entry_embedding = 3, entry_document = [97, 98, 99],
       entry_metadata = \<lparr>source = [102], filename = [102], chunk_id = 0, total_chunks = 3\<rparr>\<rparr>,
      \<lparr>entry_id = [102, 95, 49], entry_embedding = 1, entry_document = [100],
       entry_metadata = \<lparr>source = [102], filename = [102], chunk_id = 1, total_chunks = 3\<rparr>\<rparr>,
      \<lparr>entry_id = [102, 95, 50], entry_embedding = 2, entry_document = [101, 102],
       entry_metadata = \<lparr>source = [102], filename = [102], chunk_id = 2, total_chunks = 3\<rparr>\<rparr>]"
    "[113]"]
  by (simp add: search_def collection_query_def Let_def)

text \<open>
  Claim C4, as amended: for k > 0 (given or the default), search on the empty collection returns
  the empty list and raises nothing. The query text is never inspected: an empty or
  whitespace-only query is embedded and searched like any other, and the result holds
  min(k, number of entries) results, so it is empty only when the collection is.
\<close>

theorem search_empty_index_any_query:
  assumes "n_results = Some k \<or> (n_results = None \<and> k = MAX_RETRIEVED_DOCS)" and "0 < k"
  shows "fst (search enc metric [] q n_results) = Inr [] \<and>
         (\<exists>results. fst (search enc metric coll q n_results) = Inr results \<and>
            length results = min (nat k) (length coll))"
proof -
  from assms(1) have "search enc metric c q n_results = search enc metric c q (Some k)" for c
    by (auto simp: search_default)
  with assms(2) show ?thesis
    by (simp add: search_positive)
qed

text \<open>
  The theorem at the blank query \<open>" "\<close> and k = 1, on the empty collection and on a collection
  of one entry.
\<close>

theorem search_empty_index_any_query_witness:
  "0 < (1::int) \<and>
   fst (search (\<lambda>t. real (length t)) (\<lambda>a b. (a - b)\<^sup>2) [] [32] (Some 1)) = Inr [] \<and>
   fst (search (\<lambda>t. real (length t)) (\<lambda>a b. (a - b)\<^sup>2)
     [\<lparr>entry_id = [102, 95, 48], entry_embedding = 1, entry_document = [97],
       entry_metadata = \<lparr>source = [102], filename = [102], chunk_id = 0, total_chunks = 1\<rparr>\<rparr>]
     [32] (Some 1))
   = Inr [\<lparr>content = [97],
           metadata = \<lparr>source = [102], filename = [102], chunk_id = 0, total_chunks = 1\<rparr>,
           similarity_score = 1, rank = 1\<rparr>] \<and>
   length [\<lparr>content = [97],
            metadata = \<lparr>source = [102], filename = [102], chunk_id = 0, total_chunks = 1\<rparr>,
            similarity_score = 1::real, rank = 1\<rparr>] = min (nat 1) 1"
  using search_empty_index_any_query [of "Some 1" 1 "\<lambda>t. real (length t)" "\<lambda>a b. (a - b)\<^sup>2" "[32]"
    "[\<lparr>entry_id = [102, 95, 48], entry_embedding = 1::real, entry_document = [97],
       entry_metadata = \<lparr>source = [102], filename = [102], chunk_id = 0, total_chunks = 1\<rparr>\<rparr>]"]
  by (simp add: search_def collection_query_def Let_def)

text \<open>
  Claim C4 as stated fails: the query \<open>" "\<close> is whitespace only, and on a collection of one entry
  search returns that entry.
\<close>

theorem search_blank_query_counterexample:
  "strip [32] = [] \<and>
   fst (search (\<lambda>t. real (length t)) (\<lambda>a b. (a - b)\<^sup>2)
     [\<lparr>entry_id = [102, 95, 48], entry_embedding = 1, entry_document = [97],
       entry_metadata = \<lparr>source = [102], filename = [102], chunk_id = 0, total_chunks = 1\<rparr>\<rparr>]
     [32] (Some 1))
   = Inr [\<lparr>content = [97],
           metadata = \<lparr>source = [102], filename = [102], chunk_id = 0, total_chunks = 1\<rparr>,
           similarity_score = 1, rank = 1\<rparr>]"
  by (simp add: search_def collection_query_def Let_def strip_def py_isspace_def)

section \<open>Properties of rag_service.py\<close>

subsection \<open>_format_context\<close>

text \<open>
  Claim C8: for every list of results and every budget max_chars, the assembled context is at
  most max_chars plus the length of the truncation marker long; when the joined blocks are
  longer than max_chars the context ends with the marker, and otherwise it is the joined blocks
  unchanged.
\<close>

theorem format_context_bounded:
  "length (format_context_upto max_chars format_2f docs) \<le> max_chars + length TRUNCATION_MARKER \<and>
   (max_chars < length (join BLOCK_SEPARATOR (map (format_block format_2f) docs)) \<longrightarrow>
      suffix TRUNCATION_MARKER (format_context_upto max_chars format_2f docs)) \<and>
   (length (join BLOCK_SEPARATOR (map (format_block format_2f) docs)) \<le> max_chars \<longrightarrow>
      format_context_upto max_chars format_2f docs
        = join BLOCK_SEPARATOR (map (format_block format_2f) docs))"
  by (simp add: format_context_upto_def Let_def suffix_def)

text \<open>
  The theorem at one block and a budget of 3 characters: the block is longer, and the context
  ends with the marker.
\<close>

theorem format_context_bounded_witness:
  "length (format_context_upto 3 (\<lambda>s. [48])
      [\<lparr>content = [97],
        metadata = \<lparr>source = [], filename = [102], chunk_id = 0, total_chunks = 1\<rparr>,
        similarity_score = 0, rank = 1\<rparr>]) \<le> 3 + length TRUNCATION_MARKER \<and>
   3 < length (join BLOCK_SEPARATOR (map (format_block (\<lambda>s. [48]))
      [\<lparr>content = [97],
        metadata = \<lparr>source = [], filename = [102], chunk_id = 0, total_chunks = 1\<rparr>,
        similarity_score = 0, rank = 1\<rparr>])) \<and>
   suffix TRUNCATION_MARKER (format_context_upto 3 (\<lambda>s. [48])
      [\<lparr>content = [97],
        metadata = \<lparr>source = [], filename = [102], chunk_id = 0, total_chunks = 1\<rparr>,
        similarity_score = 0, rank = 1\<rparr>])"
  using format_context_bounded [of 3 "\<lambda>s. [48]"
      "[\<lparr>content = [97],
         metadata = \<lparr>source = [], filename = [102], chunk_id = 0, total_chunks = 1\<rparr>,
         similarity_score = 0, rank = 1\<rparr>]"]
  by (simp add: format_block_def SOURCE_LABEL_def)

subsection \<open>_call_lmstudio\<close>

text \<open>
  Claim C6, as amended: when the model argument is unspecified (\<open>None\<close> or the empty string)
  and the health probe succeeds, the request is sent with the configured default model
  LMSTUDIO_MODEL, whatever the list of available models and the current model of the service
  are: the function neither refreshes nor reads the list, and there is no fallback.
\<close>

theorem call_lmstudio_uses_default_model:
  assumes "get_health b = Response health_response"
    and "status_code health_response = 200"
    and "model = None \<or> model = Some []"
  shows "snd (call_lmstudio b self prompt model) =
           [HttpGet (ascii ''/health''),
            HttpPost (ascii ''/chat/completions'')
              \<lparr>payload_model = LMSTUDIO_MODEL,
               payload_messages = [(ascii ''user'', prompt)],
               payload_temperature = 4 / 10,
               payload_max_tokens = 1200,
               payload_stream = False\<rparr>]"
  using assms
  by (auto simp: call_lmstudio_def Let_def split: http_outcome.splits sum.splits)

text \<open>
  The theorem at a backend whose health probe succeeds and a service whose model list is
  \<open>["m1"]\<close>.
\<close>

theorem call_lmstudio_uses_default_model_witness:
  "snd (call_lmstudio
     \<lparr>get_health = Response \<lparr>status_code = 200, response_text = [],
                               json_model_ids = Inl [], json_completion = Inl []\<rparr>,
      get_models = Response \<lparr>status_code = 200, response_text = [],
                               json_model_ids = Inr [[109, 49]], json_completion = Inl []\<rparr>,
      post_chat_completions = (\<lambda>p. Response \<lparr>status_code = 200, response_text = [],
                               json_model_ids = Inl [], json_completion = Inr [111, 107]\<rparr>)\<rparr>
     \<lparr>available_models = [[109, 49]], current_model = Some [109, 49]\<rparr> [113] None)
   = [HttpGet (ascii ''/health''),
      HttpPost (ascii ''/chat/completions'')
        \<lparr>payload_model = ascii ''qwen2.5-coder-14b-instruct'',
         payload_messages = [(ascii ''user'', [113])],
         payload_temperature = 4 / 10,
         payload_max_tokens = 1200,
         payload_stream = False\<rparr>]"
  using call_lmstudio_uses_default_model [of
     "\<lparr>get_health = Response \<lparr>status_code = 200, response_text = [],
                               json_model_ids = Inl [], json_completion = Inl []\<rparr>,
      get_models = Response \<lparr>status_code = 200, response_text = [],
                               json_model_ids = Inr [[109, 49]], json_completion = Inl []\<rparr>,
      post_chat_completions = (\<lambda>p. Response \<lparr>status_code = 200, response_text = [],
                               json_model_ids = Inl [], json_completion = Inr [111, 107]\<rparr>)\<rparr>"
     "\<lparr>status_code = 200, response_text = [],
                               json_model_ids = Inl [], json_completion = Inl []\<rparr>"
     None "\<lparr>available_models = [[109, 49]], current_model = Some [109, 49]\<rparr>" "[113]"]
  by (simp add: LMSTUDIO_MODEL_def)

text \<open>
  Claim C6 as stated fails: the backend advertises the one model \<open>"m1"\<close>, the refreshed list is
  \<open>["m1"]\<close> and the configured default is not in it; the call with no model still sends the
  configured default, not the first entry of the list.
\<close>

theorem call_lmstudio_no_fallback_counterexample:
  "refresh_available_models
     \<lparr>get_health = Response \<lparr>status_code = 200, response_text = [],
                               json_model_ids = Inl [], json_completion = Inl []\<rparr>,
      get_models = Response \<lparr>status_code = 200, response_text = [],
                               json_model_ids = Inr [[109, 49]], json_completion = Inl []\<rparr>,
      post_chat_completions = (\<lambda>p. Response \<lparr>status_code = 200, response_text = [],
                               json_model_ids = Inl [], json_completion = Inr [111, 107]\<rparr>)\<rparr>
     \<lparr>available_models = [], current_model = None\<rparr>
   = ([[109, 49]], \<lparr>available_models = [[109, 49]], current_model = Some [109, 49]\<rparr>) \<and>
   LMSTUDIO_MODEL \<notin> set [[109, 49]] \<and>
   call_lmstudio
     \<lparr>get_health = Response \<lparr>status_code = 200, response_text = [],
                               json_model_ids = Inl [], json_completion = Inl []\<rparr>,
      get_models = Response \<lparr>status_code = 200, response_text = [],
                               json_model_ids = Inr [[109, 49]], json_completion = Inl []\<rparr>,
      post_chat_completions = (\<lambda>p. Response \<lparr>status_code = 200, response_text = [],
                               json_model_ids = Inl [], json_completion = Inr [111, 107]\<rparr>)\<rparr>
     \<lparr>available_models = [[109, 49]], current_model = Some [109, 49]\<rparr> [113] None
   = ([111, 107],
      [HttpGet (ascii ''/health''),
       HttpPost (ascii ''/chat/completions'')
        \<lparr>payload_model = LMSTUDIO_MODEL,
         payload_messages = [(ascii ''user'', [113])],
         payload_temperature = 4 / 10,
         payload_max_tokens = 1200,
         payload_stream = False\<rparr>])"
  by (simp add: refresh_available_models_def call_lmstudio_def Let_def LMSTUDIO_MODEL_def ascii_def)

subsection \<open>query\<close>

text \<open>
  Claim C5: when the collection is not empty and k > 0 (given or the default), query returns a
  result and raises nothing, whatever the backend does; its sources are the set of the file
  names of the retrieved documents, which is not empty; and each failure of the backend gives
  the diagnostic text of that failure as the answer: a refused connection the connection text,
  any other exception (a timeout) the exception prefix followed by its message, a health status
  other than 200 the text that the backend is not available, and a completion status other than
  200 the API prefix followed by that status and the text of the response. The completion call
  is the one made with the prompt built from the retrieved documents.
\<close>

theorem query_backend_failure:
  assumes "coll \<noteq> []"
    and "n_docs = Some k \<or> (n_docs = None \<and> k = MAX_RETRIEVED_DOCS)" and "0 < k"
  shows "\<exists>result docs.
           fst (query enc metric format_2f b self coll q n_docs) = Inr result \<and>
           fst (search enc metric coll q n_docs) = Inr docs \<and> docs \<noteq> [] \<and>
           sources result = set (map (\<lambda>doc. filename (metadata doc)) docs) \<and>
           sources result \<noteq> {} \<and>
           (get_health b = ConnectError \<longrightarrow> answer result = CONNECT_DIAGNOSTIC) \<and>
           (\<forall>e. get_health b = OtherError e \<longrightarrow>
              answer result = EXCEPTION_DIAGNOSTIC_PREFIX @ e) \<and>
           (\<forall>h. get_health b = Response h \<and> status_code h \<noteq> 200 \<longrightarrow>
              answer result = HEALTH_DIAGNOSTIC) \<and>
           (\<forall>h. get_health b = Response h \<and> status_code h = 200 \<longrightarrow>
              (let sent = post_chat_completions b
                     \<lparr>payload_model = LMSTUDIO_MODEL,
                      payload_messages =
                        [(ascii ''user'', build_prompt q (format_context format_2f docs))],
                      payload_temperature = 4 / 10,
                      payload_max_tokens = 1200,
                      payload_stream = False\<rparr>
               in (sent = ConnectError \<longrightarrow> answer result = CONNECT_DIAGNOSTIC) \<and>
                  (\<forall>e. sent = OtherError e \<longrightarrow>
                     answer result = EXCEPTION_DIAGNOSTIC_PREFIX @ e) \<and>
                  (\<forall>r. sent = Response r \<and> status_code r \<noteq> 200 \<longrightarrow>
                     answer result =
                       API_DIAGNOSTIC_PREFIX @ show_nat (status_code r) @ ascii '' - '' @
                       response_text r)))"
proof -
  define docs where "docs =
     map (\<lambda>(i, e). \<lparr>content = entry_document e, metadata = entry_metadata e,
                     similarity_score = 1 - metric (enc q) (entry_embedding e), rank = i + 1\<rparr>)
       (enumerate 0 (take (nat k)
          (sort_key (\<lambda>e. metric (enc q) (entry_embedding e)) coll)))"
  define ctx where "ctx = format_context format_2f docs"
  define call where "call = call_lmstudio b self (build_prompt q ctx) None"
  define result where "result =
     \<lparr>answer = fst call,
      sources = set (map (\<lambda>doc. filename (metadata doc)) docs),
      retrieved_docs = Some (length docs), query_echo = q,
      context_length = Some (length ctx)\<rparr>"
  from assms(2) have k: "(case n_docs of None \<Rightarrow> MAX_RETRIEVED_DOCS | Some k \<Rightarrow> k) = k"
    by auto
  from assms(2) have same: "search enc metric coll q n_docs = search enc metric coll q (Some k)"
    by (auto simp: search_default)
  have s: "search enc metric coll q (Some k) = (Inr docs, [Encode q, CollectionQuery k])"
    unfolding docs_def using assms(3) by (rule search_positive)
  have "length docs = min (nat k) (length coll)"
    by (simp add: docs_def)
  with assms(1,3) have "0 < length docs"
    by simp
  then have ne: "docs \<noteq> []"
    by blast
  have "query enc metric format_2f b self coll q n_docs
          = (Inr result, [Encode q, CollectionQuery k] @ snd call)"
    unfolding query_def k s Let_def using ne
    by (simp add: split_beta result_def call_def ctx_def)
  then have run: "fst (query enc metric format_2f b self coll q n_docs) = Inr result"
    by simp
  from same s have found: "fst (search enc metric coll q n_docs) = Inr docs"
    by simp
  have src: "sources result = set (map (\<lambda>doc. filename (metadata doc)) docs)"
    by (simp add: result_def)
  with ne have src_ne: "sources result \<noteq> {}"
    by simp
  have ans: "answer result = fst (call_lmstudio b self (build_prompt q ctx) None)"
    by (simp add: result_def call_def)
  have refused: "get_health b = ConnectError \<longrightarrow> answer result = CONNECT_DIAGNOSTIC"
    by (simp add: ans call_lmstudio_def)
  have raised: "\<forall>e. get_health b = OtherError e \<longrightarrow>
      answer result = EXCEPTION_DIAGNOSTIC_PREFIX @ e"
    by (simp add: ans call_lmstudio_def)
  have unhealthy: "\<forall>h. get_health b = Response h \<and> status_code h \<noteq> 200 \<longrightarrow>
      answer result = HEALTH_DIAGNOSTIC"
    by (simp add: ans call_lmstudio_def)
  have completion: "\<forall>h. get_health b = Response h \<and> status_code h = 200 \<longrightarrow>
      (let sent = post_chat_completions b
             \<lparr>payload_model = LMSTUDIO_MODEL,
              payload_messages = [(ascii ''user'', build_prompt q (format_context format_2f docs))],
              payload_temperature = 4 / 10,
              payload_max_tokens = 1200,
              payload_stream = False\<rparr>
       in (sent = ConnectError \<longrightarrow> answer result = CONNECT_DIAGNOSTIC) \<and>
          (\<forall>e. sent = OtherError e \<longrightarrow> answer result = EXCEPTION_DIAGNOSTIC_PREFIX @ e) \<and>
          (\<forall>r. sent = Response r \<and> status_code r \<noteq> 200 \<longrightarrow>
             answer result =
               API_DIAGNOSTIC_PREFIX @ show_nat (status_code r) @ ascii '' - '' @
               response_text r))"
    by (simp add: ans call_lmstudio_def Let_def ctx_def)
  from run found ne src src_ne refused raised unhealthy completion show ?thesis
    by blast
qed


text \<open>
  The theorem at a collection of two entries from the files \<open>f\<close> and \<open>g\<close> and a backend whose
  health probe succeeds and whose completion call answers 500 with the text \<open>"boom"\<close>: the
  sources are both file names and the answer is the API prefix followed by \<open>"500 - boom"\<close>.
\<close>

theorem query_backend_failure_witness:
  "[\<lparr>entry_id = [102, 95, 48], entry_embedding = 1::real, entry_document = [97],
     entry_metadata = \<lparr>source = [102], filename = [102], chunk_id = 0, total_chunks = 1\<rparr>\<rparr>,
    \<lparr>entry_id = [103, 95, 48], entry_embedding = 1, entry_document = [98],
     entry_metadata = \<lparr>source = [103], filename = [103], chunk_id = 0, total_chunks = 1\<rparr>\<rparr>] \<noteq> [] \<and>
   0 < MAX_RETRIEVED_DOCS \<and>
   fst (query (\<lambda>t. real (length t)) (\<lambda>a b. (a - b)\<^sup>2) (\<lambda>s. ascii ''1.00'')
     \<lparr>get_health = Response \<lparr>status_code = 200, response_text = [],
                               json_model_ids = Inl [], json_completion = Inl []\<rparr>,
      get_models = ConnectError,
      post_chat_completions = (\<lambda>p. Response \<lparr>status_code = 500,
                               response_text = [98, 111, 111, 109],
                               json_model_ids = Inl [], json_completion = Inl []\<rparr>)\<rparr>
     \<lparr>available_models = [], current_model = None\<rparr>
     [\<lparr>entry_id = [102, 95, 48], entry_embedding = 1, entry_document = [97],
       entry_metadata = \<lparr>source = [102], filename = [102], chunk_id = 0, total_chunks = 1\<rparr>\<rparr>,
      \<lparr>entry_id = [103, 95, 48], entry_embedding = 1, entry_document = [98],
       entry_metadata = \<lparr>source = [103], filename = [103], chunk_id = 0, total_chunks = 1\<rparr>\<rparr>]
     [113] None)
   = Inr \<lparr>answer = API_DIAGNOSTIC_PREFIX @ [53, 48, 48, 32, 45, 32, 98, 111, 111, 109],
          sources = {[102], [103]}, retrieved_docs = Some 2,
          query_echo = [113], context_length = Some 79\<rparr>"
proof -
  let ?b = "\<lparr>get_health = Response \<lparr>status_code = 200, response_text = [],
                               json_model_ids = Inl [], json_completion = Inl []\<rparr>,
      get_models = ConnectError,
      post_chat_completions = (\<lambda>p. Response \<lparr>status_code = 500,
                               response_text = [98, 111, 111, 109],
                               json_model_ids = Inl [], json_completion = Inl []\<rparr>)\<rparr>"
  let ?coll = "[\<lparr>entry_id = [102, 95, 48], entry_embedding = 1::real, entry_document = [97],
       entry_metadata = \<lparr>source = [102], filename = [102], chunk_id = 0, total_chunks = 1\<rparr>\<rparr>,
      \<lparr>entry_id = [103, 95, 48], entry_embedding = 1, entry_document = [98],
       entry_metadata = \<lparr>source = [103], filename = [103], chunk_id = 0, total_chunks = 1\<rparr>\<rparr>]"
  let ?query = "query (\<lambda>t. real (length t)) (\<lambda>a b. (a - b)\<^sup>2) (\<lambda>s. ascii ''1.00'') ?b
     \<lparr>available_models = [], current_model = None\<rparr> ?coll [113] None"
  have h1: "?coll \<noteq> []"
    by simp
  have h2: "(None :: int option) = Some MAX_RETRIEVED_DOCS \<or>
            ((None :: int option) = None \<and> MAX_RETRIEVED_DOCS = MAX_RETRIEVED_DOCS)"
    by simp
  have h3: "0 < MAX_RETRIEVED_DOCS"
    by (simp add: MAX_RETRIEVED_DOCS_def)
  from query_backend_failure [OF h1 h2 h3, of "\<lambda>t. real (length t)" "\<lambda>a b. (a - b)\<^sup>2"
      "\<lambda>s. ascii ''1.00''" ?b "\<lparr>available_models = [], current_model = None\<rparr>" "[113]"]
  have answered: "\<exists>result. fst ?query = Inr result \<and>
       answer result = API_DIAGNOSTIC_PREFIX @ show_nat 500 @ ascii '' - '' @ [98, 111, 111, 109]"
    by (auto simp: Let_def)
  have value_of: "fst ?query
   = Inr \<lparr>answer = API_DIAGNOSTIC_PREFIX @ [53, 48, 48, 32, 45, 32, 98, 111, 111, 109],
          sources = {[102], [103]}, retrieved_docs = Some 2,
          query_echo = [113], context_length = Some 79\<rparr>"
    by (simp add: query_def search_def collection_query_def MAX_RETRIEVED_DOCS_def Let_def
      call_lmstudio_def format_context_def format_context_upto_def
      MAX_CONTEXT_LENGTH_def format_block_def SOURCE_LABEL_def RELEVANCE_LABEL_def
      BLOCK_SEPARATOR_def ascii_def show_nat.simps insert_commute)
  with answered h1 h3 show ?thesis
    by simp
qed

section \<open>Properties of api.py\<close>

subsection \<open>query_rag\<close>

lemma blank_strip:
  assumes "list_all py_isspace s"
  shows "strip s = []"
proof -
  from assms have inner: "dropWhile py_isspace s = []"
    by (induction s) simp_all
  show ?thesis
    unfolding strip_def inner by simp
qed

text \<open>
  Claim C3, as amended: for every question that is empty or whitespace only, the route query_rag
  fails with an HTTP error before any call to the outside: RAGService.query is not entered, so
  nothing is embedded, the collection is not queried and the backend is not called.
  RAGService.query itself does not look at the question.
\<close>

theorem query_rag_blank_question:
  assumes "list_all py_isspace (question request)"
  shows "\<exists>status. query_rag enc metric format_2f b self coll request
            = (Inl (HTTPException status), [])"
  using assms by (simp add: query_rag_def query_rag_try_def blank_strip)

text \<open>The theorem at the question \<open>" \n"\<close>, on a collection of one entry.\<close>

theorem query_rag_blank_question_witness:
  "list_all py_isspace [32, 10] \<and>
   query_rag (\<lambda>t. real (length t)) (\<lambda>a b. (a - b)\<^sup>2) (\<lambda>s. ascii ''1.00'')
     \<lparr>get_health = ConnectError, get_models = ConnectError,
      post_chat_completions = (\<lambda>p. ConnectError)\<rparr>
     \<lparr>available_models = [], current_model = None\<rparr>
     [\<lparr>entry_id = [102, 95, 48], entry_embedding = 1, entry_document = [97],
       entry_metadata = \<lparr>source = [102], filename = [102], chunk_id = 0, total_chunks = 1\<rparr>\<rparr>]
     \<lparr>question = [32, 10], max_docs = Some 5\<rparr>
   = (Inl (HTTPException 500), [])"
  using query_rag_blank_question [of "\<lparr>question = [32, 10], max_docs = Some 5\<rparr>"
    "\<lambda>t. real (length t)" "\<lambda>a b. (a - b)\<^sup>2" "\<lambda>s. ascii ''1.00''"
     "\<lparr>get_health = ConnectError, get_models = ConnectError,
      post_chat_completions = (\<lambda>p. ConnectError)\<rparr>"
     "\<lparr>available_models = [], current_model = None\<rparr>"
     "[\<lparr>entry_id = [102, 95, 48], entry_embedding = 1, entry_document = [97],
       entry_metadata = \<lparr>source = [102], filename = [102], chunk_id = 0, total_chunks = 1\<rparr>\<rparr>]"]
  by (simp add: py_isspace_def query_rag_def query_rag_try_def strip_def)

text \<open>
  Claim C3 as stated fails for RAGService.query: on the whitespace-only question \<open>" "\<close> and a
  collection of one entry it raises nothing; it embeds the question, queries the collection,
  probes the backend (here not reachable) and returns an answer.
\<close>

theorem query_blank_question_counterexample:
  "strip [32] = [] \<and>
   query (\<lambda>t. real (length t)) (\<lambda>a b. (a - b)\<^sup>2) (\<lambda>s. ascii ''1.00'')
     \<lparr>get_health = ConnectError, get_models = ConnectError,
      post_chat_completions = (\<lambda>p. ConnectError)\<rparr>
     \<lparr>available_models = [], current_model = None\<rparr>
     [\<lparr>entry_id = [102, 95, 48], entry_embedding = 1, entry_document = [97],
       entry_metadata = \<lparr>source = [102], filename = [102], chunk_id = 0, total_chunks = 1\<rparr>\<rparr>]
     [32] None
   = (Inr \<lparr>answer = CONNECT_DIAGNOSTIC, sources = {[102]}, retrieved_docs = Some 1,
           query_echo = [32], context_length = Some 37\<rparr>,
      [Encode [32], CollectionQuery 5, HttpGet (ascii ''/health'')])"
  by (simp add: query_def search_def collection_query_def MAX_RETRIEVED_DOCS_def Let_def
      call_lmstudio_def strip_def py_isspace_def format_context_def format_context_upto_def
      MAX_CONTEXT_LENGTH_def format_block_def SOURCE_LABEL_def RELEVANCE_LABEL_def ascii_def)

text \<open>
  Claim C2: on the empty collection the question \<open>"x"\<close> is answered with empty sources,
  retrieved count 0 and the fixed text. The dictionary that RAGService.query returns there has
  the fixed text and the empty sources, but no \<open>retrieved_docs\<close> and no \<open>context_length\<close> key,
  which the other return of the function and the response model both have; the route query_rag
  then fails to build its response and raises an HTTP error with status 500.
\<close>

theorem query_empty_index_lacks_counts:
  "fst (query enc metric format_2f b self [] [120] None)
     = Inr \<lparr>answer = NO_INFO_ANSWER, sources = {}, retrieved_docs = None,
            query_echo = [120], context_length = None\<rparr> \<and>
   fst (query_rag enc metric format_2f b self [] \<lparr>question = [120], max_docs = Some 5\<rparr>)
     = Inl (HTTPException 500)"
  by (simp add: query_rag_def query_rag_try_def QueryResponse_def query_def search_def
      collection_query_def MAX_RETRIEVED_DOCS_def Let_def strip_def py_isspace_def)

end
